theory Spec2Isabelle
  imports Complex_Main
begin

section \<open>jmx\_check: a shallow embedding of \<open>src/jmx_check.py\<close>\<close>

text \<open>
  The module fetches a JMX metric from a Jolokia agent with one HTTP GET
  (\<open>MBean.get_jmx_result\<close>), and classifies its value against a warning and a critical
  threshold (\<open>JMXCheck.validate_result\<close>). The embedding follows Python 3: \<open>/\<close> is true
  division, \<open>round\<close> of a float is an \<open>int\<close>, and an ordering comparison between a string
  and a number raises \<open>TypeError\<close>.

  Exceptions are values of \<open>pyerror\<close> in the left summand of a sum type; the agent and
  the standard output are threaded through as explicit state.

  Three things of the interpreter are left out: the switch \<open>-O\<close>, under which the
  \<open>assert\<close> of \<open>get_jmx_result\<close> is not compiled; the limit on the number of digits in
  the conversion between \<open>int\<close> and \<open>str\<close> (4300 by default since Python 3.11); and
  failures of \<open>print\<close>.
\<close>

subsection \<open>Python values\<close>

text \<open>
  A Python \<open>float\<close> is an IEEE 754 binary64 number. A finite non-zero double, and
  \<open>+0.0\<close>, is carried by its exact rational value; \<open>-0.0\<close>, the infinities and NaN are
  constructors of their own.
\<close>

datatype pyfloat = Finite rat | NegZero | PosInf | NegInf | NaN

text \<open>
  The values that \<open>json.loads\<close> produces, which are also the literals a caller passes as
  thresholds. A \<open>dict\<close> is an association list in insertion order; its keys are strings.
\<close>

datatype pyval =
    PNone
  | PBool bool
  | PInt int
  | PFloat pyfloat
  | PStr string
  | PList "pyval list"
  | PDict "(string \<times> pyval) list"

text \<open>
  The exceptions the module raises itself (\<open>JolokiaConnectionError\<close>,
  \<open>JolokiaInvalidResponse\<close>, both with their message), and those that the interpreter
  raises inside it. \<open>OtherError\<close> stands for an exception of the \<open>requests\<close> library other
  than \<open>ConnectionError\<close> and \<open>ConnectTimeout\<close>.
\<close>

datatype pyerror =
    JolokiaConnectionError string
  | JolokiaInvalidResponse string
  | AssertionError
  | IndexError
  | KeyError string
  | TypeError
  | ValueError
  | AttributeError
  | ZeroDivisionError
  | OverflowError
  | OtherError string

subsection \<open>Binary64 arithmetic as Python performs it\<close>

definition pow2 :: "int \<Rightarrow> rat" where
  "pow2 e = (if 0 \<le> e then 2 ^ nat e else 1 / 2 ^ nat (- e))"

text \<open>\<open>int.bit_length()\<close>: the number of binary digits of a positive integer.\<close>

function bit_length :: "int \<Rightarrow> int" where
  "bit_length n = (if 0 < n then bit_length (n div 2) + 1 else 0)"
  by pat_completeness auto
termination
  by (relation "measure nat") auto

declare bit_length.simps [simp del]

text \<open>\<open>ilog2 q\<close> is \<open>\<lfloor>log\<^sub>2 q\<rfloor>\<close> for a positive rational \<open>q\<close>.\<close>

definition ilog2 :: "rat \<Rightarrow> int" where
  "ilog2 q = (if 1 \<le> q then bit_length \<lfloor>q\<rfloor> - 1 else - bit_length (\<lceil>1 / q\<rceil> - 1))"

text \<open>Rounding to the nearest integer, ties to the even one.\<close>

definition round_half_even :: "rat \<Rightarrow> int" where
  "round_half_even q =
     (let f = \<lfloor>q\<rfloor>; d = q - of_int f
      in if d < 1 / 2 then f
         else if 1 / 2 < d then f + 1
         else if even f then f else f + 1)"

text \<open>
  The nearest number with a 53-bit significand and an exponent of at least \<open>-1022\<close>
  (so that subnormals are spaced \<open>2\<^sup>-\<^sup>1\<^sup>0\<^sup>7\<^sup>4\<close> apart), ties to even, before the overflow
  check.
\<close>

definition round_double :: "rat \<Rightarrow> rat" where
  "round_double q =
     (if q = 0 then 0
      else let e = max (ilog2 \<bar>q\<bar>) (- 1022); u = pow2 (e - 52)
           in of_int (round_half_even (q / u)) * u)"

definition fzero :: "bool \<Rightarrow> pyfloat" where
  "fzero neg = (if neg then NegZero else Finite 0)"

definition finf :: "bool \<Rightarrow> pyfloat" where
  "finf neg = (if neg then NegInf else PosInf)"

text \<open>The IEEE result of an operation whose exact value is \<open>q\<close>.\<close>

definition float_of_rat :: "rat \<Rightarrow> pyfloat" where
  "float_of_rat q =
     (let r = round_double q
      in if 2 ^ 1024 \<le> \<bar>r\<bar> then finf (q < 0)
         else if r = 0 then fzero (q < 0)
         else Finite r)"

text \<open>\<open>float(n)\<close> of an \<open>int\<close>: correctly rounded, \<open>OverflowError\<close> beyond the doubles.\<close>

definition float_of_int :: "int \<Rightarrow> pyerror + pyfloat" where
  "float_of_int n =
     (let r = round_double (of_int n)
      in if 2 ^ 1024 \<le> \<bar>r\<bar> then Inl OverflowError else Inr (Finite r))"

fun fneg :: "pyfloat \<Rightarrow> bool" where
  "fneg (Finite q) = (q < 0)"
| "fneg NegZero = True"
| "fneg NegInf = True"
| "fneg PosInf = False"
| "fneg NaN = False"

fun fis_zero :: "pyfloat \<Rightarrow> bool" where
  "fis_zero (Finite q) = (q = 0)"
| "fis_zero NegZero = True"
| "fis_zero _ = False"

fun fis_inf :: "pyfloat \<Rightarrow> bool" where
  "fis_inf PosInf = True"
| "fis_inf NegInf = True"
| "fis_inf _ = False"

fun frat :: "pyfloat \<Rightarrow> rat" where
  "frat (Finite q) = q"
| "frat _ = 0"

text \<open>IEEE multiplication and division (the divisor of \<open>fdiv\<close> is not a zero).\<close>

definition fmul :: "pyfloat \<Rightarrow> pyfloat \<Rightarrow> pyfloat" where
  "fmul a b =
     (if a = NaN \<or> b = NaN then NaN
      else if fis_inf a \<or> fis_inf b then
        (if fis_zero a \<or> fis_zero b then NaN else finf (fneg a \<noteq> fneg b))
      else if fis_zero a \<or> fis_zero b then fzero (fneg a \<noteq> fneg b)
      else float_of_rat (frat a * frat b))"

definition fdiv :: "pyfloat \<Rightarrow> pyfloat \<Rightarrow> pyfloat" where
  "fdiv a b =
     (if a = NaN \<or> b = NaN then NaN
      else if fis_inf a then (if fis_inf b then NaN else finf (fneg a \<noteq> fneg b))
      else if fis_inf b then fzero (fneg a \<noteq> fneg b)
      else if fis_zero a then fzero (fneg a \<noteq> fneg b)
      else float_of_rat (frat a / frat b))"

text \<open>
  The IEEE order \<open>a \<le> b\<close>: false as soon as one side is NaN; the two zeros are equal.
\<close>

fun frank :: "pyfloat \<Rightarrow> int" where
  "frank NegInf = - 1"
| "frank PosInf = 1"
| "frank _ = 0"

definition float_le :: "pyfloat \<Rightarrow> pyfloat \<Rightarrow> bool" where
  "float_le a b =
     (a \<noteq> NaN \<and> b \<noteq> NaN \<and>
      (frank a < frank b \<or> (frank a = frank b \<and> frat a \<le> frat b)))"

subsection \<open>The built-in functions the module calls\<close>

text \<open>
  Three functions of the interpreter are parameters of the model: \<open>repr\<close> of a float
  (the shortest decimal string that reads back as the same double), \<open>repr\<close> of a string
  (quoting and escapes), and \<open>float\<close> of a string (\<open>None\<close> where CPython raises
  \<open>ValueError\<close>). A theorem stated for a runtime \<open>rt\<close> holds for all of their values.
\<close>

record pyrt =
  float_repr :: "pyfloat \<Rightarrow> string"
  str_repr :: "string \<Rightarrow> string"
  float_of_str :: "string \<Rightarrow> pyfloat option"

definition digit_char :: "int \<Rightarrow> char" where
  "digit_char d = ''0123456789'' ! nat d"

function str_digits :: "int \<Rightarrow> string" where
  "str_digits n = (if n < 10 then [digit_char n] else str_digits (n div 10) @ [digit_char (n mod 10)])"
  by pat_completeness auto
termination
  by (relation "measure nat") auto

declare str_digits.simps [simp del]

text \<open>\<open>str(i)\<close> of an \<open>int\<close>.\<close>

definition str_int :: "int \<Rightarrow> string" where
  "str_int i = (if i < 0 then CHR ''-'' # str_digits (- i) else str_digits i)"

text \<open>\<open>sep.join(xs)\<close>.\<close>

fun join :: "string \<Rightarrow> string list \<Rightarrow> string" where
  "join sep [] = []"
| "join sep [x] = x"
| "join sep (x # y # ys) = x @ sep @ join sep (y # ys)"

fun py_repr :: "pyrt \<Rightarrow> pyval \<Rightarrow> string" where
  "py_repr rt PNone = ''None''"
| "py_repr rt (PBool b) = (if b then ''True'' else ''False'')"
| "py_repr rt (PInt i) = str_int i"
| "py_repr rt (PFloat f) = float_repr rt f"
| "py_repr rt (PStr s) = str_repr rt s"
| "py_repr rt (PList xs) = ''['' @ join '', '' (map (py_repr rt) xs) @ '']''"
| "py_repr rt (PDict kvs) =
     ''{'' @ join '', '' (map (\<lambda>kv. str_repr rt (fst kv) @ '': '' @ py_repr rt (snd kv)) kvs) @ ''}''"

text \<open>\<open>str(v)\<close>, which is also \<open>"{}".format(v)\<close>: a string is itself, any other value its \<open>repr\<close>.\<close>

definition py_str :: "pyrt \<Rightarrow> pyval \<Rightarrow> string" where
  "py_str rt v = (case v of PStr s \<Rightarrow> s | _ \<Rightarrow> py_repr rt v)"

text \<open>\<open>float(v)\<close>.\<close>

fun py_float :: "pyrt \<Rightarrow> pyval \<Rightarrow> pyerror + pyfloat" where
  "py_float rt (PFloat f) = Inr f"
| "py_float rt (PInt n) = float_of_int n"
| "py_float rt (PBool b) = Inr (Finite (if b then 1 else 0))"
| "py_float rt (PStr s) = (case float_of_str rt s of None \<Rightarrow> Inl ValueError | Some f \<Rightarrow> Inr f)"
| "py_float rt _ = Inl TypeError"

text \<open>
  The left operand of \<open>v >= f\<close> and \<open>v <= f\<close> against a float \<open>f\<close>: an \<open>int\<close> (and a
  \<open>bool\<close>, which is an \<open>int\<close>) is compared by its exact value, not by a rounded one; any
  other type has no ordering with a float.
\<close>

fun cmp_operand :: "pyval \<Rightarrow> pyfloat option" where
  "cmp_operand (PInt n) = Some (Finite (of_int n))"
| "cmp_operand (PBool b) = Some (Finite (if b then 1 else 0))"
| "cmp_operand (PFloat x) = Some x"
| "cmp_operand _ = None"

definition py_ge :: "pyval \<Rightarrow> pyfloat \<Rightarrow> pyerror + bool" where
  "py_ge v f = (case cmp_operand v of None \<Rightarrow> Inl TypeError | Some x \<Rightarrow> Inr (float_le f x))"

definition py_le :: "pyval \<Rightarrow> pyfloat \<Rightarrow> pyerror + bool" where
  "py_le v f = (case cmp_operand v of None \<Rightarrow> Inl TypeError | Some x \<Rightarrow> Inr (float_le x f))"

text \<open>
  \<open>a / b\<close>. Two \<open>int\<close>s are divided exactly and the quotient is rounded once; when one
  operand is a float the other is converted first (left operand first), and then the
  divisor is tested for zero.
\<close>

fun int_operand :: "pyval \<Rightarrow> int option" where
  "int_operand (PInt n) = Some n"
| "int_operand (PBool b) = Some (if b then 1 else 0)"
| "int_operand _ = None"

definition int_truediv :: "int \<Rightarrow> int \<Rightarrow> pyerror + pyfloat" where
  "int_truediv a b =
     (if b = 0 then Inl ZeroDivisionError
      else let r = round_double (of_int a / of_int b)
           in if 2 ^ 1024 \<le> \<bar>r\<bar> then Inl OverflowError
              else if r = 0 then Inr (fzero ((a < 0) \<noteq> (b < 0)))
              else Inr (Finite r))"

definition float_truediv :: "pyfloat \<Rightarrow> pyfloat \<Rightarrow> pyerror + pyfloat" where
  "float_truediv x y = (if fis_zero y then Inl ZeroDivisionError else Inr (fdiv x y))"

fun float_operand :: "pyval \<Rightarrow> (pyerror + pyfloat) option" where
  "float_operand (PFloat x) = Some (Inr x)"
| "float_operand (PInt n) = Some (float_of_int n)"
| "float_operand (PBool b) = Some (Inr (Finite (if b then 1 else 0)))"
| "float_operand _ = None"

definition py_truediv :: "pyval \<Rightarrow> pyval \<Rightarrow> pyerror + pyfloat" where
  "py_truediv a b =
     (case (int_operand a, int_operand b) of
        (Some m, Some n) \<Rightarrow> int_truediv m n
      | _ \<Rightarrow>
        (case (float_operand a, float_operand b) of
           (Some ca, Some cb) \<Rightarrow>
             (case ca of
                Inl e \<Rightarrow> Inl e
              | Inr x \<Rightarrow> (case cb of Inl e \<Rightarrow> Inl e | Inr y \<Rightarrow> float_truediv x y))
         | _ \<Rightarrow> Inl TypeError))"

text \<open>\<open>round(x)\<close> of a float, with one argument: an \<open>int\<close>, ties to even.\<close>

fun py_round :: "pyfloat \<Rightarrow> pyerror + int" where
  "py_round (Finite q) = Inr (round_half_even q)"
| "py_round NegZero = Inr 0"
| "py_round NaN = Inl ValueError"
| "py_round _ = Inl OverflowError"

text \<open>\<open>container[k]\<close> with a string \<open>k\<close>.\<close>

fun py_getitem :: "pyval \<Rightarrow> string \<Rightarrow> pyerror + pyval" where
  "py_getitem (PDict kvs) k = (case map_of kvs k of None \<Rightarrow> Inl (KeyError k) | Some v \<Rightarrow> Inr v)"
| "py_getitem _ k = Inl TypeError"

text \<open>\<open>k in container\<close> with a string \<open>k\<close>: a key of a dict, an element of a list, a substring of a string.\<close>

fun is_substring :: "string \<Rightarrow> string \<Rightarrow> bool" where
  "is_substring k [] = (k = [])"
| "is_substring k (c # cs) = (take (length k) (c # cs) = k \<or> is_substring k cs)"

fun py_contains :: "pyval \<Rightarrow> string \<Rightarrow> pyerror + bool" where
  "py_contains (PDict kvs) k = Inr (k \<in> set (map fst kvs))"
| "py_contains (PList xs) k = Inr (PStr k \<in> set xs)"
| "py_contains (PStr s) k = Inr (is_substring k s)"
| "py_contains _ k = Inl TypeError"

subsection \<open>\<open>MBeanResult\<close> and \<open>MBean\<close>\<close>

text \<open>
  \<open>MBeanResult\<close>: the name of the bean, the content of the response for it, and the
  \<open>value\<close> property, which \<open>__init__\<close> sets to \<open>None\<close>.
\<close>

record mbean_result =
  result_mbean_name :: pyval
  content :: pyval
  result_value :: pyval

definition MBeanResult :: "pyval \<Rightarrow> pyval \<Rightarrow> mbean_result" where
  "MBeanResult name c = \<lparr>result_mbean_name = name, content = c, result_value = PNone\<rparr>"

text \<open>The truth value of an optional string: \<open>None\<close> and \<open>''\<close> are false.\<close>

fun truthy :: "string option \<Rightarrow> bool" where
  "truthy None = False"
| "truthy (Some s) = (s \<noteq> [])"

text \<open>\<open>MBeanResult.get_value_from_result\<close>.\<close>

definition get_value_from_result :: "mbean_result \<Rightarrow> string \<Rightarrow> string option \<Rightarrow> pyerror + pyval" where
  "get_value_from_result self mbean_attribute mbean_key =
     (if truthy mbean_key then
        (case py_getitem (content self) mbean_attribute of
           Inl e \<Rightarrow> Inl e
         | Inr a \<Rightarrow> py_getitem a (the mbean_key))
      else py_getitem (content self) mbean_attribute)"

record mbean =
  mbean_name :: string
  attribute :: string
  key :: "string option"
  jolokia_host :: string
  jolokia_port :: int
  jolokia_context :: string
  jolokia_user :: "string option"
  jolokia_pass :: "string option"

text \<open>\<open>MBean.__init__\<close>, which appends the trailing slash to the context.\<close>

definition MBean ::
  "string \<Rightarrow> string \<Rightarrow> string option \<Rightarrow> string \<Rightarrow> int \<Rightarrow> string \<Rightarrow> string option \<Rightarrow> string option
     \<Rightarrow> pyerror + mbean" where
  "MBean name attr k host port ctx user pass =
     (if ctx = [] then Inl IndexError
      else Inr \<lparr>mbean_name = name, attribute = attr, key = k, jolokia_host = host,
                jolokia_port = port,
                jolokia_context = (if last ctx \<noteq> CHR ''/'' then ctx @ ''/'' else ctx),
                jolokia_user = user, jolokia_pass = pass\<rparr>)"

subsection \<open>The HTTP agent\<close>

text \<open>
  One call of \<open>requests.get\<close>: the URL, the credentials and the timeouts in seconds
  when they are passed.
\<close>

record http_request =
  url :: string
  auth :: "(string \<times> string) option"
  timeouts :: "(int \<times> int) option"

text \<open>
  What the call yields: an exception that the \<open>except\<close> clause catches
  (\<open>requests.ConnectionError\<close>, \<open>requests.ConnectTimeout\<close>) with its text, any other
  exception, or a response with its status code and the outcome of
  \<open>json.loads(response.content.decode())\<close>, which is a value or an exception.
\<close>

datatype http_outcome =
    ConnectionFailed string
  | RequestFailed pyerror
  | Response int "pyerror + pyval"

text \<open>The agent answers a request in a state of its own and moves to a next state.\<close>

type_synonym 'w agent = "http_request \<Rightarrow> 'w \<Rightarrow> http_outcome \<times> 'w"

definition request_of :: "mbean \<Rightarrow> http_request" where
  "request_of self =
     (let u = ''http://'' @ jolokia_host self @ '':'' @ str_int (jolokia_port self) @ ''/''
                @ jolokia_context self @ ''read/'' @ mbean_name self
      in if truthy (jolokia_user self) \<and> truthy (jolokia_pass self)
         then \<lparr>url = u, auth = Some (the (jolokia_user self), the (jolokia_pass self)),
               timeouts = Some (5, 5)\<rparr>
         else \<lparr>url = u, auth = None, timeouts = None\<rparr>)"

text \<open>Lines 167 to 180 of \<open>get_jmx_result\<close>: from the parsed body to the list of results.\<close>

definition metric_list :: "pyrt \<Rightarrow> pyval \<Rightarrow> pyerror + mbean_result list" where
  "metric_list rt metrics =
     (case py_contains metrics ''value'' of
        Inl e \<Rightarrow> Inl e
      | Inr False \<Rightarrow>
          Inl (JolokiaInvalidResponse (''Invalid response from Jolokia:'' @ [CHR 0x0A] @ py_str rt metrics))
      | Inr True \<Rightarrow>
        (case py_getitem metrics ''request'' of
           Inl e \<Rightarrow> Inl e
         | Inr (PDict request) \<Rightarrow>
             if ''mbean'' \<in> set (map fst request) then
               (case py_getitem (PDict request) ''mbean'' of
                  Inl e \<Rightarrow> Inl e
                | Inr name \<Rightarrow>
                  (case py_getitem metrics ''value'' of
                     Inl e \<Rightarrow> Inl e
                   | Inr v \<Rightarrow> Inr [MBeanResult name v]))
             else
               (case py_getitem metrics ''value'' of
                  Inl e \<Rightarrow> Inl e
                | Inr (PDict items) \<Rightarrow> Inr (map (\<lambda>kv. MBeanResult (PStr (fst kv)) (snd kv)) items)
                | Inr _ \<Rightarrow> Inl AttributeError)
         | Inr _ \<Rightarrow> Inl AttributeError))"

text \<open>\<open>MBean.get_jmx_result\<close>.\<close>

definition get_jmx_result ::
  "pyrt \<Rightarrow> 'w agent \<Rightarrow> mbean \<Rightarrow> 'w \<Rightarrow> (pyerror + mbean_result list) \<times> 'w" where
  "get_jmx_result rt net self w =
     (case net (request_of self) w of
        (ConnectionFailed msg, w') \<Rightarrow> (Inl (JolokiaConnectionError msg), w')
      | (RequestFailed e, w') \<Rightarrow> (Inl e, w')
      | (Response status_code body, w') \<Rightarrow>
          if status_code \<noteq> 200 then (Inl AssertionError, w')
          else (case body of
                  Inl e \<Rightarrow> (Inl e, w')
                | Inr metrics \<Rightarrow> (metric_list rt metrics, w')))"

subsection \<open>\<open>JMXCheck.validate_result\<close>\<close>

text \<open>
  A threshold is a literal value or an \<open>MBean\<close> whose fetched value is the threshold
  (the test \<open>isinstance(warning_thresh, MBean)\<close>).
\<close>

datatype thresh = Literal pyval | Reference mbean

text \<open>The state of a run: the agent's state, and the lines printed so far.\<close>

record 'w world =
  agent_state :: 'w
  stdout :: "string list"

definition print :: "string \<Rightarrow> 'w world \<Rightarrow> 'w world" where
  "print line s = s\<lparr>stdout := stdout s @ [line]\<rparr>"

text \<open>
  A step of the function body either raises, returns from the function, or goes on
  with a value.
\<close>

datatype 'a flow = Raise pyerror | Return "int \<times> string option" | Continue 'a

text \<open>
  Lines 206 to 216, and again lines 218 to 228 with \<open>Critical\<close> for \<open>Warning\<close>: a
  threshold that is an \<open>MBean\<close> is fetched and overridden by its value.
\<close>

definition resolve_thresh ::
  "pyrt \<Rightarrow> 'w agent \<Rightarrow> string \<Rightarrow> thresh \<Rightarrow> 'w world \<Rightarrow> pyval flow \<times> 'w world" where
  "resolve_thresh rt net which t s =
     (case t of
        Literal v \<Rightarrow> (Continue v, s)
      | Reference m \<Rightarrow>
        (case get_jmx_result rt net m (agent_state s) of
           (Inl e, w') \<Rightarrow> (Raise e, s\<lparr>agent_state := w'\<rparr>)
         | (Inr result, w') \<Rightarrow>
             if length result > 1 then
               (Return (2, None),
                print (''MONITORING ERROR - '' @ which @ '' threshold is MBean and does not return a single value'')
                  (s\<lparr>agent_state := w'\<rparr>))
             else if length result = 0 then
               (Return (2, None),
                print (''MONITORING ERROR - '' @ which @ '' threshold is MBean and does not return a value'')
                  (s\<lparr>agent_state := w'\<rparr>))
             else
               (case get_value_from_result (result ! 0) (attribute m) (key m) of
                  Inl e \<Rightarrow> (Raise e, s\<lparr>agent_state := w'\<rparr>)
                | Inr v \<Rightarrow> (Continue v, s\<lparr>agent_state := w'\<rparr>))))"

text \<open>
  The expression \<open>mbean.get_jmx_result()[0].get_value_from_result(mbean.attribute, mbean.key)\<close>
  of lines 231 and 236. Indexing an empty list raises \<open>IndexError\<close>.
\<close>

definition first_value :: "pyrt \<Rightarrow> 'w agent \<Rightarrow> mbean \<Rightarrow> 'w \<Rightarrow> (pyerror + pyval) \<times> 'w" where
  "first_value rt net m w =
     (case get_jmx_result rt net m w of
        (Inl e, w') \<Rightarrow> (Inl e, w')
      | (Inr result, w') \<Rightarrow>
        (case result of
           [] \<Rightarrow> (Inl IndexError, w')
         | r # _ \<Rightarrow> (get_value_from_result r (attribute m) (key m), w')))"

text \<open>\<open>round((mbean_value / second_mbean_value) * 100)\<close> of line 238.\<close>

definition percentage :: "pyval \<Rightarrow> pyval \<Rightarrow> pyerror + int" where
  "percentage mbean_value second_mbean_value =
     (case py_truediv mbean_value second_mbean_value of
        Inl e \<Rightarrow> Inl e
      | Inr q \<Rightarrow> py_round (fmul q (Finite 100)))"

text \<open>
  Lines 231 to 238: the value that is compared, and \<open>mbean_percent_factors\<close>
  (\<open>None\<close> without a second \<open>MBean\<close>).
\<close>

definition compared_value ::
  "pyrt \<Rightarrow> 'w agent \<Rightarrow> mbean \<Rightarrow> mbean option \<Rightarrow> 'w \<Rightarrow> (pyerror + pyval \<times> pyval) \<times> 'w" where
  "compared_value rt net m second_mbean w =
     (case first_value rt net m w of
        (Inl e, w1) \<Rightarrow> (Inl e, w1)
      | (Inr mbean_value, w1) \<Rightarrow>
        (case second_mbean of
           None \<Rightarrow> (Inr (mbean_value, PNone), w1)
         | Some m2 \<Rightarrow>
           (case first_value rt net m2 w1 of
              (Inl e, w2) \<Rightarrow> (Inl e, w2)
            | (Inr second_mbean_value, w2) \<Rightarrow>
              (case percentage mbean_value second_mbean_value of
                 Inl e \<Rightarrow> (Inl e, w2)
               | Inr p \<Rightarrow>
                   (Inr (PInt p,
                         PStr (''('' @ py_str rt mbean_value @ ''/'' @ py_str rt second_mbean_value @ '')'')),
                    w2)))))"

text \<open>
  One of the two conditions of lines 241 to 243 and 245 to 247. Of the three disjuncts
  Python evaluates the one that the flags select: the string equality in compare mode,
  \<open>mbean_value >= float(thresh)\<close> in range mode, \<open>mbean_value <= float(thresh)\<close> in
  reverse range mode.
\<close>

definition threshold_hit :: "pyrt \<Rightarrow> bool \<Rightarrow> bool \<Rightarrow> pyval \<Rightarrow> pyval \<Rightarrow> pyerror + bool" where
  "threshold_hit rt compare reverse mbean_value t =
     (if compare then Inr (py_str rt mbean_value = py_str rt t)
      else case py_float rt t of
             Inl e \<Rightarrow> Inl e
           | Inr f \<Rightarrow> if \<not> reverse then py_ge mbean_value f else py_le mbean_value f)"

text \<open>Lines 241 to 248: the critical threshold first, then the warning threshold.\<close>

definition return_code :: "pyrt \<Rightarrow> bool \<Rightarrow> bool \<Rightarrow> pyval \<Rightarrow> pyval \<Rightarrow> pyval \<Rightarrow> pyerror + int" where
  "return_code rt compare reverse mbean_value warning_thresh critical_thresh =
     (case threshold_hit rt compare reverse mbean_value critical_thresh of
        Inl e \<Rightarrow> Inl e
      | Inr True \<Rightarrow> Inr 2
      | Inr False \<Rightarrow>
        (case threshold_hit rt compare reverse mbean_value warning_thresh of
           Inl e \<Rightarrow> Inl e
         | Inr True \<Rightarrow> Inr 1
         | Inr False \<Rightarrow> Inr 0))"

text \<open>Lines 250 to 253: the string that is returned with the code.\<close>

definition display :: "pyrt \<Rightarrow> mbean option \<Rightarrow> pyval \<Rightarrow> pyval \<Rightarrow> string" where
  "display rt second_mbean mbean_value mbean_percent_factors =
     (case second_mbean of
        None \<Rightarrow> py_str rt mbean_value
      | Some _ \<Rightarrow> py_str rt mbean_value @ ''% '' @ py_str rt mbean_percent_factors)"

definition validate_result ::
  "pyrt \<Rightarrow> 'w agent \<Rightarrow> mbean \<Rightarrow> thresh \<Rightarrow> thresh \<Rightarrow> bool \<Rightarrow> mbean option \<Rightarrow> bool \<Rightarrow> 'w world
     \<Rightarrow> (pyerror + int \<times> string option) \<times> 'w world" where
  "validate_result rt net m warning_thresh critical_thresh compare second_mbean reverse s =
     (case resolve_thresh rt net ''Warning'' warning_thresh s of
        (Raise e, s1) \<Rightarrow> (Inl e, s1)
      | (Return r, s1) \<Rightarrow> (Inr r, s1)
      | (Continue warning, s1) \<Rightarrow>
        (case resolve_thresh rt net ''Critical'' critical_thresh s1 of
           (Raise e, s2) \<Rightarrow> (Inl e, s2)
         | (Return r, s2) \<Rightarrow> (Inr r, s2)
         | (Continue critical, s2) \<Rightarrow>
           (case compared_value rt net m second_mbean (agent_state s2) of
              (Inl e, w3) \<Rightarrow> (Inl e, s2\<lparr>agent_state := w3\<rparr>)
            | (Inr (mbean_value, factors), w3) \<Rightarrow>
              (case return_code rt compare reverse mbean_value warning critical of
                 Inl e \<Rightarrow> (Inl e, s2\<lparr>agent_state := w3\<rparr>)
               | Inr code \<Rightarrow>
                   (Inr (code, Some (display rt second_mbean mbean_value factors)),
                    s2\<lparr>agent_state := w3\<rparr>)))))"

text \<open>Python's \<open>v == 0\<close> for a number \<open>v\<close>.\<close>

definition equals_zero :: "pyval \<Rightarrow> bool" where
  "equals_zero v = (case cmp_operand v of None \<Rightarrow> False | Some x \<Rightarrow> fis_zero x)"

subsection \<open>A runtime and an agent for closed evaluations\<close>

text \<open>
  \<open>cpython_subset\<close> gives the three parameters the values CPython gives them on a
  part of their domain and says nothing elsewhere: the \<open>repr\<close> of an integral float
  below \<open>10\<^sup>1\<^sup>6\<close> in magnitude, of the two infinities, NaN and \<open>-0.0\<close>; the \<open>repr\<close>
  of a string of letters, digits and a few marks, which is the string in single quotes;
  \<open>float\<close> of a string of decimal digits.
\<close>

definition plain_chars :: string where
  "plain_chars = ''abcdefghijklmnopqrstuvwxyzABCDEFGHIJKLMNOPQRSTUVWXYZ0123456789 _-.,:;=*/()''"

fun digits_value :: "int \<Rightarrow> string \<Rightarrow> int" where
  "digits_value acc [] = acc"
| "digits_value acc (c # cs) =
     digits_value (10 * acc + (case map_of (zip ''0123456789'' [0, 1, 2, 3, 4, 5, 6, 7, 8, 9]) c of
                                  None \<Rightarrow> 0 | Some d \<Rightarrow> d)) cs"

definition cpython_subset :: pyrt where
  "cpython_subset =
     \<lparr>float_repr =
        (\<lambda>f. case f of
               NaN \<Rightarrow> ''nan''
             | PosInf \<Rightarrow> ''inf''
             | NegInf \<Rightarrow> ''-inf''
             | NegZero \<Rightarrow> ''-0.0''
             | Finite q \<Rightarrow>
                 if of_int \<lfloor>q\<rfloor> = q \<and> \<bar>q\<bar> < 10 ^ 16 then str_int \<lfloor>q\<rfloor> @ ''.0'' else undefined),
      str_repr =
        (\<lambda>s. if list_all (\<lambda>c. c \<in> set plain_chars) s then [CHR 0x27] @ s @ [CHR 0x27] else undefined),
      float_of_str =
        (\<lambda>s. if s \<noteq> [] \<and> list_all (\<lambda>c. c \<in> set ''0123456789'') s
             then Some (float_of_rat (of_int (digits_value 0 s))) else undefined)\<rparr>"

text \<open>
  An agent that holds one parsed response body for each URL it knows, answers any
  other URL with status 404 and a body that is not JSON, and counts the requests it has
  served.
\<close>

definition table_agent :: "(string \<times> pyval) list \<Rightarrow> nat agent" where
  "table_agent tbl req n =
     (case map_of tbl (url req) of
        None \<Rightarrow> (Response 404 (Inl ValueError), Suc n)
      | Some body \<Rightarrow> (Response 200 (Inr body), Suc n))"

text \<open>
  \<open>MBean(name)\<close> with the defaults of \<open>__init__\<close>, and the URL that
  \<open>get_jmx_result\<close> builds for it.
\<close>

definition bean :: "string \<Rightarrow> mbean" where
  "bean name =
     \<lparr>mbean_name = name, attribute = ''Value'', key = None, jolokia_host = ''localhost'',
      jolokia_port = 8778, jolokia_context = ''jolokia/'', jolokia_user = None,
      jolokia_pass = None\<rparr>"

definition bean_url :: "string \<Rightarrow> string" where
  "bean_url name = ''http://localhost:8778/jolokia/read/'' @ name"

text \<open>
  The body of a response for one bean whose attribute \<open>Value\<close> is \<open>v\<close>, and a body
  whose \<open>request\<close> has no \<open>mbean\<close> key and whose \<open>value\<close> maps the names of several
  beans to their attributes (the shape that the \<open>else\<close> branch of \<open>get_jmx_result\<close> reads).
\<close>

definition single_body :: "string \<Rightarrow> pyval \<Rightarrow> pyval" where
  "single_body name v =
     PDict [(''request'', PDict [(''mbean'', PStr name), (''type'', PStr ''read'')]),
            (''value'', PDict [(''Value'', v)]),
            (''status'', PInt 200)]"

definition pattern_body :: "(string \<times> pyval) list \<Rightarrow> pyval" where
  "pattern_body items =
     PDict [(''request'', PDict [(''type'', PStr ''read'')]),
            (''value'', PDict items),
            (''status'', PInt 200)]"

definition start :: "nat world" where
  "start = \<lparr>agent_state = 0, stdout = []\<rparr>"

text \<open>An \<open>int\<close> that \<open>float\<close> cannot convert.\<close>

definition beyond_doubles :: int where
  "beyond_doubles = 2 ^ 1024"

section \<open>Lemmas\<close>

subsection \<open>Integers that are doubles\<close>

text \<open>
  An \<open>int\<close> of magnitude at most \<open>2\<^sup>5\<^sup>3\<close> is a double, so \<open>float\<close> returns it
  unchanged.
\<close>

lemma bit_length_pos: "0 < n \<Longrightarrow> 0 < bit_length n"
proof (induction n rule: bit_length.induct)
  case (1 n)
  have "0 \<le> bit_length (n div 2)"
  proof (cases "0 < n div 2")
    case True
    with 1 show ?thesis by simp
  next
    case False
    then show ?thesis by (simp add: bit_length.simps)
  qed
  with 1(2) show ?case by (subst bit_length.simps) simp
qed

lemma bit_length_lower: "0 < n \<Longrightarrow> 2 ^ nat (bit_length n - 1) \<le> n"
proof (induction n rule: bit_length.induct)
  case (1 n)
  show ?case
  proof (cases "0 < n div 2")
    case True
    with 1 have ih: "2 ^ nat (bit_length (n div 2) - 1) \<le> n div 2" by simp
    have pos: "0 < bit_length (n div 2)" using True by (rule bit_length_pos)
    have "bit_length n = bit_length (n div 2) + 1"
      using 1(2) by (subst bit_length.simps) simp
    then have "nat (bit_length n - 1) = Suc (nat (bit_length (n div 2) - 1))"
      using pos by simp
    then have "(2::int) ^ nat (bit_length n - 1) = 2 * 2 ^ nat (bit_length (n div 2) - 1)"
      by simp
    also have "\<dots> \<le> 2 * (n div 2)" using ih by simp
    also have "\<dots> \<le> n" by simp
    finally show ?thesis .
  next
    case False
    with 1(2) have "n = 1" by simp
    then show ?thesis by (simp add: bit_length.simps)
  qed
qed

lemma round_half_even_of_int: "round_half_even (of_int k) = k"
  by (simp add: round_half_even_def)

lemma round_double_of_int_exact:
  assumes "\<bar>n\<bar> \<le> 2 ^ 53"
  shows "round_double (of_int n) = of_int n"
proof (cases "n = 0")
  case True
  then show ?thesis by (simp add: round_double_def)
next
  case False
  define a where "a = \<bar>n\<bar>"
  define e where "e = bit_length a - 1"
  have apos: "0 < a" using False by (simp add: a_def)
  have e0: "0 \<le> e" using bit_length_pos[OF apos] by (simp add: e_def)
  have low: "2 ^ nat e \<le> a" using bit_length_lower[OF apos] by (simp add: e_def)
  have "(2::int) ^ nat e \<le> 2 ^ 53" using low assms by (simp add: a_def)
  then have e53: "nat e \<le> 53" by (rule power_le_imp_le_exp [rotated]) simp
  have il: "ilog2 \<bar>of_int n\<bar> = e"
  proof -
    have "\<bar>(of_int n)::rat\<bar> = of_int a" by (simp add: a_def)
    moreover have "(1::rat) \<le> of_int a" using apos by simp
    ultimately show ?thesis by (simp add: ilog2_def e_def)
  qed
  have mx: "max e (- 1022) = e" using e0 by simp
  have "of_int (round_half_even (of_int n / pow2 (e - 52))) * pow2 (e - 52) = (of_int n :: rat)"
  proof (cases "e \<le> 52")
    case True
    define k where "k = nat (52 - e)"
    have p: "pow2 (e - 52) = 1 / 2 ^ k"
    proof (cases "e = 52")
      case True
      then show ?thesis by (simp add: pow2_def k_def)
    next
      case False
      with True have "e - 52 < 0" by simp
      then show ?thesis by (simp add: pow2_def k_def)
    qed
    have "(of_int n :: rat) / pow2 (e - 52) = of_int (n * 2 ^ k)" by (simp add: p)
    then have "round_half_even (of_int n / pow2 (e - 52)) = n * 2 ^ k"
      by (simp only: round_half_even_of_int)
    then show ?thesis by (simp add: p)
  next
    case False
    with e53 e0 have e_eq: "e = 53" by simp
    then have "2 ^ 53 \<le> a" using low by simp
    with assms have a_eq: "a = 2 ^ 53" by (simp add: a_def)
    have p: "pow2 (e - 52) = 2" by (simp add: e_eq pow2_def)
    have "n = 2 ^ 53 \<or> n = - (2 ^ 53)" using a_eq by (simp add: a_def abs_if split: if_splits)
    then obtain j where j: "n = 2 * j" by auto
    have "(of_int n :: rat) / 2 = of_int j" by (simp add: j)
    then have "round_half_even (of_int n / 2) = j" by (simp only: round_half_even_of_int)
    then show ?thesis by (simp add: p j)
  qed
  then show ?thesis using False by (simp add: round_double_def il mx Let_def)
qed



lemma ilog2_of_int: "0 < n \<Longrightarrow> ilog2 (of_int n) = bit_length n - 1"
  by (simp add: ilog2_def)

lemma round_double_eval:
  "q \<noteq> 0 \<Longrightarrow> ilog2 \<bar>q\<bar> = e \<Longrightarrow> - 1022 \<le> e \<Longrightarrow> round_half_even (q / pow2 (e - 52)) = k \<Longrightarrow>
   round_double q = of_int k * pow2 (e - 52)"
  by (simp add: round_double_def Let_def max_def)

lemma float_of_int_exact: "\<bar>n\<bar> \<le> 2 ^ 53 \<Longrightarrow> float_of_int n = Inr (Finite (of_int n))"
proof -
  assume a: "\<bar>n\<bar> \<le> 2 ^ 53"
  have "\<bar>(of_int n)::rat\<bar> = of_int \<bar>n\<bar>" by simp
  also have "\<dots> \<le> of_int (2 ^ 53)" using a by (simp only: of_int_le_iff)
  also have "\<dots> < (2::rat) ^ 1024" by simp
  finally have "\<not> (2::rat) ^ 1024 \<le> \<bar>of_int n\<bar>" by simp
  then show ?thesis by (simp add: float_of_int_def round_double_of_int_exact[OF a] Let_def)
qed

subsection \<open>The agent of the closed evaluations\<close>

lemma MBean_defaults: "MBean name ''Value'' None ''localhost'' 8778 ''jolokia'' None None = Inr (bean name)"
  by (simp add: MBean_def bean_def)

lemma str_int_8778: "str_int 8778 = ''8778''"
  by (simp add: str_int_def str_digits.simps digit_char_def)

lemma request_of_bean: "request_of (bean name) = \<lparr>url = bean_url name, auth = None, timeouts = None\<rparr>"
  by (simp add: request_of_def bean_def bean_url_def str_int_8778)

lemma get_jmx_result_table:
  "get_jmx_result rt (table_agent tbl) (bean name) n =
     (case map_of tbl (bean_url name) of
        None \<Rightarrow> (Inl AssertionError, Suc n)
      | Some body \<Rightarrow> (metric_list rt body, Suc n))"
  by (simp add: get_jmx_result_def request_of_bean table_agent_def split: option.split)

lemma metric_list_single:
  "metric_list rt (single_body name v) = Inr [MBeanResult (PStr name) (PDict [(''Value'', v)])]"
  by (simp add: metric_list_def single_body_def)

lemma metric_list_pattern:
  "metric_list rt (pattern_body items) = Inr (map (\<lambda>kv. MBeanResult (PStr (fst kv)) (snd kv)) items)"
  by (simp add: metric_list_def pattern_body_def)

lemma get_value_plain:
  "get_value_from_result (MBeanResult n (PDict [(''Value'', v)])) ''Value'' None = Inr v"
  by (simp add: get_value_from_result_def MBeanResult_def)

lemma bean_fields: "attribute (bean name) = ''Value''" "key (bean name) = None"
  by (simp_all add: bean_def)

lemma first_value_single:
  "map_of tbl (bean_url name) = Some (single_body name v) \<Longrightarrow>
   first_value rt (table_agent tbl) (bean name) n = (Inr v, Suc n)"
  by (simp add: first_value_def get_jmx_result_table metric_list_single get_value_plain bean_fields)

lemma get_jmx_result_pattern:
  "map_of tbl (bean_url name) = Some (pattern_body items) \<Longrightarrow>
   get_jmx_result rt (table_agent tbl) (bean name) n =
     (Inr (map (\<lambda>kv. MBeanResult (PStr (fst kv)) (snd kv)) items), Suc n)"
  by (simp add: get_jmx_result_table metric_list_pattern)

lemma str_int_5: "str_int 5 = ''5''"
  by (simp add: str_int_def str_digits.simps digit_char_def)

subsection \<open>The stages of \<open>validate_result\<close>\<close>

lemma resolve_thresh_Literal: "resolve_thresh rt net which (Literal v) s = (Continue v, s)"
  by (simp add: resolve_thresh_def)

lemma validate_result_resolved:
  assumes "resolve_thresh rt net ''Warning'' warning_thresh s = (Continue w, s1)"
    and "resolve_thresh rt net ''Critical'' critical_thresh s1 = (Continue c, s2)"
    and "compared_value rt net m second_mbean (agent_state s2) = (Inr (v, factors), w3)"
  shows "validate_result rt net m warning_thresh critical_thresh compare second_mbean reverse s =
           (case return_code rt compare reverse v w c of
              Inl e \<Rightarrow> (Inl e, s2\<lparr>agent_state := w3\<rparr>)
            | Inr code \<Rightarrow> (Inr (code, Some (display rt second_mbean v factors)), s2\<lparr>agent_state := w3\<rparr>))"
  using assms by (simp add: validate_result_def)

lemma compared_value_None:
  "first_value rt net m w = (Inr v, w1) \<Longrightarrow> compared_value rt net m None w = (Inr (v, PNone), w1)"
  by (simp add: compared_value_def)

lemma compared_value_Some:
  "first_value rt net m w = (Inr p, w1) \<Longrightarrow> first_value rt net m2 w1 = (Inr q, w2) \<Longrightarrow>
   compared_value rt net m (Some m2) w =
     (case percentage p q of
        Inl e \<Rightarrow> (Inl e, w2)
      | Inr pct \<Rightarrow> (Inr (PInt pct, PStr (''('' @ py_str rt p @ ''/'' @ py_str rt q @ '')'')), w2))"
  by (simp add: compared_value_def)




section \<open>The claims\<close>

subsection \<open>C1: the critical threshold is checked first\<close>










subsection \<open>C2: reverse range mode\<close>








subsection \<open>C3: compare mode\<close>

text \<open>
  C3. In compare mode, once the thresholds are resolved to \<open>w\<close> and \<open>c\<close> and the
  compared value is \<open>v\<close>, the classification is by equality of the strings \<open>str(v)\<close>,
  \<open>str(c)\<close> and \<open>str(w)\<close> alone, whatever \<open>reverse\<close> is: CRITICAL when \<open>str(v) = str(c)\<close>,
  also when \<open>str(w)\<close> matches too; WARNING when only \<open>str(w)\<close> matches; OK otherwise.
  No threshold is converted to a float, so the call cannot raise at this stage.
\<close>

theorem compare_mode_string_equality:
  assumes "resolve_thresh rt net ''Warning'' warning_thresh s = (Continue w, s1)"
    and "resolve_thresh rt net ''Critical'' critical_thresh s1 = (Continue c, s2)"
    and "compared_value rt net m second_mbean (agent_state s2) = (Inr (v, factors), w3)"
  shows "validate_result rt net m warning_thresh critical_thresh True second_mbean reverse s =
           (Inr (if py_str rt v = py_str rt c then 2 else if py_str rt v = py_str rt w then 1 else 0,
                 Some (display rt second_mbean v factors)),
            s2\<lparr>agent_state := w3\<rparr>)"
proof -
  have "return_code rt True reverse v w c =
      Inr (if py_str rt v = py_str rt c then 2 else if py_str rt v = py_str rt w then 1 else 0)"
    by (simp add: return_code_def threshold_hit_def)
  then show ?thesis
    by (simp add: validate_result_resolved [OF assms])
qed

text \<open>The value 3 against the thresholds \<open>'3'\<close> and \<open>'3'\<close> is CRITICAL.\<close>

lemma str_int_3: "str_int 3 = ''3''"
  by (simp add: str_int_def str_digits.simps digit_char_def)

theorem compare_mode_string_equality_witness:
  "validate_result cpython_subset (table_agent [(bean_url ''b'', single_body ''b'' (PInt 3))]) (bean ''b'')
     (Literal (PStr ''3'')) (Literal (PStr ''3'')) True None False start =
   (Inr (2, Some ''3''), \<lparr>agent_state = 1, stdout = []\<rparr>)"
proof -
  let ?net = "table_agent [(bean_url ''b'', single_body ''b'' (PInt 3))]"
  have v: "compared_value cpython_subset ?net (bean ''b'') None (agent_state start) = (Inr (PInt 3, PNone), Suc 0)"
    by (rule compared_value_None) (simp add: first_value_single start_def)
  show ?thesis
    using compare_mode_string_equality [OF resolve_thresh_Literal [where v = "PStr ''3''"]
        resolve_thresh_Literal [where v = "PStr ''3''"] v, where reverse = False]
    by (simp add: display_def py_str_def str_int_3 start_def)
qed

subsection \<open>C4: the percentage of a second MBean\<close>






subsection \<open>C5: a threshold MBean without exactly one sample\<close>

lemma resolve_thresh_ambiguous:
  assumes "get_jmx_result rt net t (agent_state s) = (Inr result, wa)" and "length result \<noteq> 1"
  shows "resolve_thresh rt net which (Reference t) s =
           (Return (2, None),
            print (''MONITORING ERROR - '' @ which @ '' threshold is MBean and does not return ''
                     @ (if 1 < length result then ''a single value'' else ''a value''))
              (s\<lparr>agent_state := wa\<rparr>))"
proof (cases "1 < length result")
  case True
  with assms(1) show ?thesis by (simp add: resolve_thresh_def)
next
  case False
  with assms(2) have "length result = 0" by arith
  with assms(1) show ?thesis by (simp add: resolve_thresh_def)
qed

text \<open>
  C5. When the warning threshold is an \<open>MBean\<close> and its fetch returns a list of
  samples whose length is not 1, \<open>validate_result\<close> returns \<open>(2, None)\<close>: CRITICAL with no
  display value. The same holds for the critical threshold, whose fetch takes place
  once the warning threshold has been resolved. Nothing is raised; one line is printed,
  and no further request is made.
\<close>

theorem ambiguous_threshold_is_critical:
  "(warning_thresh = Reference t
      \<and> get_jmx_result rt net t (agent_state s) = (Inr result, wa) \<and> length result \<noteq> 1 \<longrightarrow>
    validate_result rt net m warning_thresh critical_thresh compare second_mbean reverse s =
      (Inr (2, None),
       print (''MONITORING ERROR - Warning threshold is MBean and does not return ''
                @ (if 1 < length result then ''a single value'' else ''a value''))
         (s\<lparr>agent_state := wa\<rparr>)))
   \<and> (resolve_thresh rt net ''Warning'' warning_thresh s = (Continue w, sw)
      \<and> critical_thresh = Reference t
      \<and> get_jmx_result rt net t (agent_state sw) = (Inr result, wa) \<and> length result \<noteq> 1 \<longrightarrow>
    validate_result rt net m warning_thresh critical_thresh compare second_mbean reverse s =
      (Inr (2, None),
       print (''MONITORING ERROR - Critical threshold is MBean and does not return ''
                @ (if 1 < length result then ''a single value'' else ''a value''))
         (sw\<lparr>agent_state := wa\<rparr>)))"
proof (intro conjI impI)
  assume a: "warning_thresh = Reference t
      \<and> get_jmx_result rt net t (agent_state s) = (Inr result, wa) \<and> length result \<noteq> 1"
  then have g: "get_jmx_result rt net t (agent_state s) = (Inr result, wa)"
    and l: "length result \<noteq> 1" and r: "warning_thresh = Reference t"
    by simp_all
  show "validate_result rt net m warning_thresh critical_thresh compare second_mbean reverse s =
      (Inr (2, None),
       print (''MONITORING ERROR - Warning threshold is MBean and does not return ''
                @ (if 1 < length result then ''a single value'' else ''a value''))
         (s\<lparr>agent_state := wa\<rparr>))"
    by (simp add: validate_result_def r resolve_thresh_ambiguous [OF g l])
next
  assume a: "resolve_thresh rt net ''Warning'' warning_thresh s = (Continue w, sw)
      \<and> critical_thresh = Reference t
      \<and> get_jmx_result rt net t (agent_state sw) = (Inr result, wa) \<and> length result \<noteq> 1"
  then have g: "get_jmx_result rt net t (agent_state sw) = (Inr result, wa)"
    and l: "length result \<noteq> 1" and r: "critical_thresh = Reference t"
    and w: "resolve_thresh rt net ''Warning'' warning_thresh s = (Continue w, sw)"
    by simp_all
  show "validate_result rt net m warning_thresh critical_thresh compare second_mbean reverse s =
      (Inr (2, None),
       print (''MONITORING ERROR - Critical threshold is MBean and does not return ''
                @ (if 1 < length result then ''a single value'' else ''a value''))
         (sw\<lparr>agent_state := wa\<rparr>))"
    by (simp add: validate_result_def r w resolve_thresh_ambiguous [OF g l])
qed

text \<open>
  A warning threshold that matches two beans, and a critical threshold that matches
  none.
\<close>

theorem ambiguous_threshold_is_critical_witness:
  "validate_result cpython_subset
     (table_agent [(bean_url ''b*'', pattern_body [(''b1'', PDict [(''Value'', PInt 5)]),
                                                   (''b2'', PDict [(''Value'', PInt 7)])])])
     (bean ''x'') (Reference (bean ''b*'')) (Literal (PInt 20)) False None False start =
   (Inr (2, None),
    \<lparr>agent_state = 1,
     stdout = [''MONITORING ERROR - Warning threshold is MBean and does not return a single value'']\<rparr>)
   \<and> validate_result cpython_subset (table_agent [(bean_url ''none*'', pattern_body [])])
     (bean ''x'') (Literal (PInt 10)) (Reference (bean ''none*'')) False None False start =
   (Inr (2, None),
    \<lparr>agent_state = 1,
     stdout = [''MONITORING ERROR - Critical threshold is MBean and does not return a value'']\<rparr>)"
proof -
  let ?two = "[(''b1'', PDict [(''Value'', PInt 5)]), (''b2'', PDict [(''Value'', PInt 7)])]"
  have a: "get_jmx_result cpython_subset (table_agent [(bean_url ''b*'', pattern_body ?two)])
      (bean ''b*'') (agent_state start) =
      (Inr (map (\<lambda>kv. MBeanResult (PStr (fst kv)) (snd kv)) ?two), Suc 0)"
    by (simp add: get_jmx_result_pattern start_def)
  have b: "get_jmx_result cpython_subset (table_agent [(bean_url ''none*'', pattern_body [])])
      (bean ''none*'') (agent_state start) =
      (Inr (map (\<lambda>kv. MBeanResult (PStr (fst kv)) (snd kv)) []), Suc 0)"
    by (simp add: get_jmx_result_pattern start_def)
  have "validate_result cpython_subset (table_agent [(bean_url ''b*'', pattern_body ?two)])
     (bean ''x'') (Reference (bean ''b*'')) (Literal (PInt 20)) False None False start =
   (Inr (2, None),
    \<lparr>agent_state = 1,
     stdout = [''MONITORING ERROR - Warning threshold is MBean and does not return a single value'']\<rparr>)"
    using ambiguous_threshold_is_critical [where rt = cpython_subset and s = start
        and m = "bean ''x''" and compare = False and second_mbean = None and reverse = False
        and warning_thresh = "Reference (bean ''b*'')" and t = "bean ''b*''"
        and net = "table_agent [(bean_url ''b*'', pattern_body ?two)]"
        and critical_thresh = "Literal (PInt 20)" and wa = "Suc 0"
        and result = "map (\<lambda>kv. MBeanResult (PStr (fst kv)) (snd kv)) ?two", THEN conjunct1] a
    by (simp add: print_def start_def)
  moreover have "validate_result cpython_subset (table_agent [(bean_url ''none*'', pattern_body [])])
     (bean ''x'') (Literal (PInt 10)) (Reference (bean ''none*'')) False None False start =
   (Inr (2, None),
    \<lparr>agent_state = 1,
     stdout = [''MONITORING ERROR - Critical threshold is MBean and does not return a value'']\<rparr>)"
    using ambiguous_threshold_is_critical [where rt = cpython_subset and s = start and sw = start
        and m = "bean ''x''" and compare = False and second_mbean = None and reverse = False
        and warning_thresh = "Literal (PInt 10)" and t = "bean ''none*''"
        and net = "table_agent [(bean_url ''none*'', pattern_body [])]" and w = "PInt 10"
        and critical_thresh = "Reference (bean ''none*'')" and wa = "Suc 0"
        and result = "[]", THEN conjunct2] b
    by (simp add: print_def start_def resolve_thresh_Literal)
  ultimately show ?thesis by simp
qed

subsection \<open>C6: the samples of a successful fetch\<close>



subsection \<open>C7: a response without a \<open>value\<close> key\<close>




subsection \<open>C8: the primary fetch is indexed, not counted\<close>

text \<open>
  The thresholds are refused unless their fetch yields exactly one sample
  (\<open>resolve_thresh_ambiguous\<close>), but the primary fetch is only indexed with \<open>[0]\<close>: no
  sample raises \<open>IndexError\<close>, and of several samples the first one is evaluated and the
  others are ignored.
\<close>

lemma first_value_takes_first:
  "get_jmx_result rt net m w = (Inr (r # rest), w') \<Longrightarrow>
   first_value rt net m w = (get_value_from_result r (attribute m) (key m), w')"
  by (simp add: first_value_def)

lemma primary_without_sample_raises:
  assumes "resolve_thresh rt net ''Warning'' warning_thresh s = (Continue w, s1)"
    and "resolve_thresh rt net ''Critical'' critical_thresh s1 = (Continue c, s2)"
    and "get_jmx_result rt net m (agent_state s2) = (Inr [], w3)"
  shows "validate_result rt net m warning_thresh critical_thresh compare second_mbean reverse s =
           (Inl IndexError, s2\<lparr>agent_state := w3\<rparr>)"
  using assms by (simp add: validate_result_def compared_value_def first_value_def)

text \<open>
  C8, at an input where it fails: a pattern response with the beans \<open>b1\<close> (value 5)
  and \<open>b2\<close> (value 7), against the thresholds 10 and 20. The fetch yields two samples,
  and the result is OK (0) with the display \<open>5\<close>: the first sample is evaluated, and no
  error is produced.
\<close>

theorem two_samples_first_one_evaluated:
  "get_jmx_result cpython_subset
     (table_agent [(bean_url ''b*'', pattern_body [(''b1'', PDict [(''Value'', PInt 5)]),
                                                   (''b2'', PDict [(''Value'', PInt 7)])])])
     (bean ''b*'') 0 =
   (Inr [MBeanResult (PStr ''b1'') (PDict [(''Value'', PInt 5)]),
         MBeanResult (PStr ''b2'') (PDict [(''Value'', PInt 7)])], 1)
   \<and> validate_result cpython_subset
     (table_agent [(bean_url ''b*'', pattern_body [(''b1'', PDict [(''Value'', PInt 5)]),
                                                   (''b2'', PDict [(''Value'', PInt 7)])])])
     (bean ''b*'') (Literal (PInt 10)) (Literal (PInt 20)) False None False start =
   (Inr (0, Some ''5''), \<lparr>agent_state = 1, stdout = []\<rparr>)"
proof -
  let ?net = "table_agent [(bean_url ''b*'', pattern_body [(''b1'', PDict [(''Value'', PInt 5)]),
                                                           (''b2'', PDict [(''Value'', PInt 7)])])]"
  have g: "get_jmx_result cpython_subset ?net (bean ''b*'') 0 =
      (Inr [MBeanResult (PStr ''b1'') (PDict [(''Value'', PInt 5)]),
            MBeanResult (PStr ''b2'') (PDict [(''Value'', PInt 7)])], Suc 0)"
    by (simp add: get_jmx_result_pattern)
  have "first_value cpython_subset ?net (bean ''b*'') 0 = (Inr (PInt 5), Suc 0)"
    by (simp add: first_value_takes_first [OF g] get_value_plain bean_fields)
  then have v: "compared_value cpython_subset ?net (bean ''b*'') None (agent_state start) =
      (Inr (PInt 5, PNone), Suc 0)"
    by (simp add: compared_value_None start_def)
  have rc: "return_code cpython_subset False False (PInt 5) (PInt 10) (PInt 20) = Inr 0"
    by (simp add: return_code_def threshold_hit_def float_of_int_exact py_ge_def float_le_def)
  have "validate_result cpython_subset ?net (bean ''b*'') (Literal (PInt 10)) (Literal (PInt 20))
      False None False start =
      (Inr (0, Some (display cpython_subset None (PInt 5) PNone)), start\<lparr>agent_state := Suc 0\<rparr>)"
    by (simp add: validate_result_resolved [OF resolve_thresh_Literal resolve_thresh_Literal v] rc)
  then have "validate_result cpython_subset ?net (bean ''b*'') (Literal (PInt 10)) (Literal (PInt 20))
      False None False start = (Inr (0, Some ''5''), \<lparr>agent_state = 1, stdout = []\<rparr>)"
    by (simp add: display_def py_str_def str_int_5 start_def)
  with g show ?thesis by simp
qed

subsection \<open>C9: a status other than 200\<close>

text \<open>
  C9. For a response whose status code is not 200, whatever its body,
  \<open>get_jmx_result\<close> fails on the \<open>assert\<close> with \<open>AssertionError\<close>, which is neither
  \<open>JolokiaConnectionError\<close> nor \<open>JolokiaInvalidResponse\<close>.
\<close>

theorem non_200_status_is_assertion_error:
  assumes "net (request_of self) w = (Response status_code body, w')"
    and "status_code \<noteq> 200"
  shows "get_jmx_result rt net self w = (Inl AssertionError, w')
       \<and> (\<forall>msg. fst (get_jmx_result rt net self w) \<noteq> Inl (JolokiaConnectionError msg)
               \<and> fst (get_jmx_result rt net self w) \<noteq> Inl (JolokiaInvalidResponse msg))"
  using assms by (simp add: get_jmx_result_def)

text \<open>A URL the agent does not know is answered with status 404.\<close>

theorem non_200_status_is_assertion_error_witness:
  "get_jmx_result cpython_subset (table_agent []) (bean ''b'') 0 = (Inl AssertionError, 1)"
proof -
  have r: "table_agent [] (request_of (bean ''b'')) 0 = (Response 404 (Inl ValueError), Suc 0)"
    by (simp add: table_agent_def)
  show ?thesis
    using non_200_status_is_assertion_error [where rt = cpython_subset and self = "bean ''b''"
        and net = "table_agent []" and w = 0, OF r] by simp
qed

subsection \<open>C10: a second value that is zero\<close>

lemma equals_zero_int_operand: "equals_zero q \<Longrightarrow> int_operand q = Some j \<Longrightarrow> j = 0"
  by (cases q) (auto simp add: equals_zero_def split: if_splits)

lemma equals_zero_float_operand: "equals_zero q \<Longrightarrow> \<exists>y. float_operand q = Some (Inr y) \<and> fis_zero y"
  by (cases q) (auto simp add: equals_zero_def float_of_int_exact)

lemma py_truediv_by_zero:
  assumes "equals_zero q"
    and "(\<exists>i j. int_operand p = Some i \<and> int_operand q = Some j) \<or> (\<exists>x. float_operand p = Some (Inr x))"
  shows "py_truediv p q = Inl ZeroDivisionError"
proof (cases "\<exists>i j. int_operand p = Some i \<and> int_operand q = Some j")
  case True
  then obtain i j where ij: "int_operand p = Some i" "int_operand q = Some j" by blast
  with assms(1) have "j = 0" by (simp add: equals_zero_int_operand)
  with ij show ?thesis by (simp add: py_truediv_def int_truediv_def)
next
  case False
  with assms(2) obtain x where x: "float_operand p = Some (Inr x)" by blast
  from assms(1) obtain y where y: "float_operand q = Some (Inr y)" "fis_zero y"
    using equals_zero_float_operand by blast
  show ?thesis
    using x y False by (auto simp add: py_truediv_def float_truediv_def split: option.splits)
qed

text \<open>
  C10, as amended. With a second \<open>MBean\<close> whose value \<open>q\<close> equals zero (\<open>0\<close>, \<open>False\<close>,
  \<open>0.0\<close> or \<open>-0.0\<close>), once the thresholds are resolved: if the primary value \<open>p\<close> is a
  number, and is convertible to a double unless both values are \<open>int\<close>s, the call raises
  \<open>ZeroDivisionError\<close>. It does so before the classification: whatever the thresholds,
  the flags \<open>compare\<close> and \<open>reverse\<close> are, no code and no display value is returned, and
  nothing is printed.
\<close>

theorem zero_second_value_raises:
  assumes "resolve_thresh rt net ''Warning'' warning_thresh s = (Continue w, s1)"
    and "resolve_thresh rt net ''Critical'' critical_thresh s1 = (Continue c, s2)"
    and "first_value rt net m (agent_state s2) = (Inr p, w3)"
    and "first_value rt net m2 w3 = (Inr q, w4)"
    and "equals_zero q"
    and "(\<exists>i j. int_operand p = Some i \<and> int_operand q = Some j) \<or> (\<exists>x. float_operand p = Some (Inr x))"
  shows "validate_result rt net m warning_thresh critical_thresh compare (Some m2) reverse s =
           (Inl ZeroDivisionError, s2\<lparr>agent_state := w4\<rparr>)"
proof -
  have "percentage p q = Inl ZeroDivisionError"
    by (simp add: percentage_def py_truediv_by_zero [OF assms(5,6)])
  then have "compared_value rt net m (Some m2) (agent_state s2) = (Inl ZeroDivisionError, w4)"
    using assms(3,4) by (simp add: compared_value_Some)
  then show ?thesis
    using assms(1,2) by (simp add: validate_result_def)
qed

text \<open>5 out of 0.\<close>

theorem zero_second_value_raises_witness:
  "validate_result cpython_subset
     (table_agent [(bean_url ''used'', single_body ''used'' (PInt 5)),
                   (bean_url ''max'', single_body ''max'' (PInt 0))])
     (bean ''used'') (Literal (PInt 80)) (Literal (PInt 90)) False (Some (bean ''max'')) False start =
   (Inl ZeroDivisionError, \<lparr>agent_state = 2, stdout = []\<rparr>)"
proof -
  let ?net = "table_agent [(bean_url ''used'', single_body ''used'' (PInt 5)),
                           (bean_url ''max'', single_body ''max'' (PInt 0))]"
  have p: "first_value cpython_subset ?net (bean ''used'') (agent_state start) = (Inr (PInt 5), Suc 0)"
    by (simp add: first_value_single start_def)
  have q: "first_value cpython_subset ?net (bean ''max'') (Suc 0) = (Inr (PInt 0), Suc (Suc 0))"
    by (rule first_value_single) (simp add: bean_url_def)
  have z: "equals_zero (PInt 0)"
    by (simp add: equals_zero_def)
  have n: "(\<exists>i j. int_operand (PInt 5) = Some i \<and> int_operand (PInt 0) = Some j)
      \<or> (\<exists>x. float_operand (PInt 5) = Some (Inr x))"
    by simp
  show ?thesis
    using zero_second_value_raises [OF resolve_thresh_Literal [where v = "PInt 80"]
        resolve_thresh_Literal [where v = "PInt 90"] p q z n,
        where compare = False and reverse = False]
    by (simp add: start_def)
qed

text \<open>
  The claim as stated, for every evaluation with a zero second value, fails for a
  primary value that the division rejects before it looks at the divisor: the \<open>int\<close>
  \<open>2\<^sup>1\<^sup>0\<^sup>2\<^sup>4\<close> against \<open>0.0\<close> raises \<open>OverflowError\<close>, since the \<open>int\<close> is converted to a
  float first; the string \<open>n/a\<close> against \<open>0\<close> raises \<open>TypeError\<close>.
\<close>

lemma bit_length_power2: "bit_length (2 ^ k) = int k + 1"
proof (induction k)
  case 0
  show ?case by (simp add: bit_length.simps)
next
  case (Suc k)
  have "bit_length (2 ^ Suc k) = bit_length (2 ^ Suc k div 2) + 1"
    by (subst bit_length.simps) simp
  with Suc show ?case by simp
qed

lemma float_of_int_overflow: "float_of_int beyond_doubles = Inl OverflowError"
proof -
  have i: "ilog2 \<bar>of_int (2 ^ 1024)\<bar> = 1024"
    using ilog2_of_int [of "2 ^ 1024"] bit_length_power2 [of 1024] by simp
  have r: "round_half_even (of_int (2 ^ 1024) / pow2 (1024 - 52)) = 2 ^ 52"
    using round_half_even_of_int [of "2 ^ 52"] by (simp add: pow2_def)
  have "round_double (of_int (2 ^ 1024)) = of_int (2 ^ 52) * pow2 (1024 - 52)"
    by (rule round_double_eval [OF _ i _ r]) simp_all
  then have "round_double (of_int (2 ^ 1024)) = 2 ^ 1024"
    by (simp add: pow2_def)
  then show ?thesis
    by (simp add: float_of_int_def beyond_doubles_def)
qed

theorem zero_second_value_raises_counterexample:
  "beyond_doubles = 2 ^ 1024
   \<and> first_value cpython_subset
     (table_agent [(bean_url ''used'', single_body ''used'' (PInt beyond_doubles)),
                   (bean_url ''max'', single_body ''max'' (PFloat (Finite 0)))])
     (bean ''max'') 1 = (Inr (PFloat (Finite 0)), 2)
   \<and> validate_result cpython_subset
     (table_agent [(bean_url ''used'', single_body ''used'' (PInt beyond_doubles)),
                   (bean_url ''max'', single_body ''max'' (PFloat (Finite 0)))])
     (bean ''used'') (Literal (PInt 80)) (Literal (PInt 90)) False (Some (bean ''max'')) False start =
   (Inl OverflowError, \<lparr>agent_state = 2, stdout = []\<rparr>)
   \<and> first_value cpython_subset
     (table_agent [(bean_url ''used'', single_body ''used'' (PStr ''n/a'')),
                   (bean_url ''max'', single_body ''max'' (PInt 0))])
     (bean ''max'') 1 = (Inr (PInt 0), 2)
   \<and> validate_result cpython_subset
     (table_agent [(bean_url ''used'', single_body ''used'' (PStr ''n/a'')),
                   (bean_url ''max'', single_body ''max'' (PInt 0))])
     (bean ''used'') (Literal (PInt 80)) (Literal (PInt 90)) False (Some (bean ''max'')) False start =
   (Inl TypeError, \<lparr>agent_state = 2, stdout = []\<rparr>)"
proof -
  let ?n1 = "table_agent [(bean_url ''used'', single_body ''used'' (PInt beyond_doubles)),
                          (bean_url ''max'', single_body ''max'' (PFloat (Finite 0)))]"
  let ?n2 = "table_agent [(bean_url ''used'', single_body ''used'' (PStr ''n/a'')),
                          (bean_url ''max'', single_body ''max'' (PInt 0))]"
  have p1: "first_value cpython_subset ?n1 (bean ''used'') (agent_state start) = (Inr (PInt beyond_doubles), Suc 0)"
    by (simp add: first_value_single start_def)
  have q1: "first_value cpython_subset ?n1 (bean ''max'') (Suc 0) = (Inr (PFloat (Finite 0)), Suc (Suc 0))"
    by (rule first_value_single) (simp add: bean_url_def)
  have "py_truediv (PInt beyond_doubles) (PFloat (Finite 0)) = Inl OverflowError"
    by (simp add: py_truediv_def float_of_int_overflow)
  then have "compared_value cpython_subset ?n1 (bean ''used'') (Some (bean ''max'')) (agent_state start) =
      (Inl OverflowError, Suc (Suc 0))"
    by (simp add: compared_value_Some [OF p1 q1] percentage_def)
  then have r1: "validate_result cpython_subset ?n1 (bean ''used'') (Literal (PInt 80)) (Literal (PInt 90))
      False (Some (bean ''max'')) False start = (Inl OverflowError, \<lparr>agent_state = 2, stdout = []\<rparr>)"
    by (simp add: validate_result_def resolve_thresh_Literal start_def)
  have p2: "first_value cpython_subset ?n2 (bean ''used'') (agent_state start) = (Inr (PStr ''n/a''), Suc 0)"
    by (simp add: first_value_single start_def)
  have q2: "first_value cpython_subset ?n2 (bean ''max'') (Suc 0) = (Inr (PInt 0), Suc (Suc 0))"
    by (rule first_value_single) (simp add: bean_url_def)
  have "py_truediv (PStr ''n/a'') (PInt 0) = Inl TypeError"
    by (simp add: py_truediv_def)
  then have "compared_value cpython_subset ?n2 (bean ''used'') (Some (bean ''max'')) (agent_state start) =
      (Inl TypeError, Suc (Suc 0))"
    by (simp add: compared_value_Some [OF p2 q2] percentage_def)
  then have r2: "validate_result cpython_subset ?n2 (bean ''used'') (Literal (PInt 80)) (Literal (PInt 90))
      False (Some (bean ''max'')) False start = (Inl TypeError, \<lparr>agent_state = 2, stdout = []\<rparr>)"
    by (simp add: validate_result_def resolve_thresh_Literal start_def)
  from q1 q2 r1 r2 show ?thesis by (simp add: beyond_doubles_def)
qed

end
